theory Spec2Isabelle
  imports Complex_Main
begin

section \<open>Data model of april\_tag\_generator.py\<close>

text \<open>
  Python floats are idealised as real numbers: every theorem below is a statement of
  exact arithmetic. The tag family lookups \<open>tag_sizes_v2[tag_family]\<close> and
  \<open>tg.generate(tag_id)\<close> belong to an external library, so their results
  \<open>tag_per_side\<close> and \<open>tag\<close> are parameters of the model.
\<close>

datatype error = ZeroDivisionError | IndexError

text \<open>
  A coordinate handed to svgwrite is either \<open>x * cm\<close>, an f-string
  \<open>f"{x}em"\<close>, or a bare number (SVG user units).
\<close>

datatype unit = Cm | Em | User

datatype dim = Dim real unit

type_synonym point = "dim \<times> dim"

text \<open>
  The svgwrite elements the program creates, with the arguments it passes, in the
  order of the calls: \<open>rect(insert, size, fill, stroke)\<close>,
  \<open>text(text, insert, font_size, fill, stroke)\<close>,
  \<open>line(start, end, fill, stroke, stroke_width)\<close> and
  \<open>circle(center, r, fill, stroke, stroke_width)\<close>.
\<close>

datatype primitive =
    Rect point point string string
  | Text string point dim string string
  | Line point point string string dim
  | Circle point dim string string dim

text \<open>
  \<open>svgwrite.Drawing(size=...)\<close> followed by \<open>dwg.add\<close> calls: the drawing is
  its size and the elements added so far, oldest first.
\<close>

record drawing =
  size_of :: point
  elements :: "primitive list"

definition dwg_add :: "primitive \<Rightarrow> drawing \<Rightarrow> drawing" where
  "dwg_add p dwg = dwg\<lparr>elements := elements dwg @ [p]\<rparr>"

section \<open>Formatting of the tag id\<close>

definition digit_char :: "nat \<Rightarrow> char" where
  "digit_char d = ''0123456789'' ! d"

fun digits :: "nat \<Rightarrow> string" where
  "digits n = (if n < 10 then [digit_char n] else digits (n div 10) @ [digit_char (n mod 10)])"

declare digits.simps [simp del]

definition str_int :: "int \<Rightarrow> string" where
  "str_int k = (if k < 0 then CHR ''-'' # digits (nat (- k)) else digits (nat k))"

section \<open>Geometry (lines 33 to 49)\<close>

definition square_side :: "real \<Rightarrow> int \<Rightarrow> real" where
  "square_side width tag_per_side = width / real_of_int (tag_per_side + 2)"

definition height :: "real \<Rightarrow> int \<Rightarrow> bool \<Rightarrow> real" where
  "height width tag_per_side print_label =
     (if print_label then width + 2 * square_side width tag_per_side else width)"

definition fiducial_size :: "real \<Rightarrow> int \<Rightarrow> bool \<Rightarrow> real \<times> real" where
  "fiducial_size width tag_per_side print_label = (width, height width tag_per_side print_label)"

definition square_size :: "real \<Rightarrow> int \<Rightarrow> real \<times> real" where
  "square_size width tag_per_side = (square_side width tag_per_side, square_side width tag_per_side)"

definition april_org :: "real \<Rightarrow> int \<Rightarrow> real \<times> real" where
  "april_org width tag_per_side = (square_side width tag_per_side, square_side width tag_per_side)"

definition font_size :: "real \<Rightarrow> real" where
  "font_size width = width / 5"

definition caption_org :: "real \<Rightarrow> int \<Rightarrow> real \<times> real" where
  "caption_org width tag_per_side =
     (square_side width tag_per_side * (5 / 4), width + square_side width tag_per_side * (5 / 4))"

definition axis_org :: "real \<Rightarrow> int \<Rightarrow> real \<times> real" where
  "axis_org width tag_per_side =
     (width - square_side width tag_per_side * 2, width + square_side width tag_per_side * (5 / 4))"

definition y_point :: "real \<Rightarrow> int \<Rightarrow> real \<times> real" where
  "y_point width tag_per_side =
     (fst (axis_org width tag_per_side) + (3 / 4) * square_side width tag_per_side,
      snd (axis_org width tag_per_side) + 0)"

definition z_point :: "real \<Rightarrow> int \<Rightarrow> real \<times> real" where
  "z_point width tag_per_side =
     (fst (axis_org width tag_per_side) + 0,
      snd (axis_org width tag_per_side) + (- (3 / 4)) * square_side width tag_per_side)"

section \<open>The drawing (lines 51 to 143)\<close>

text \<open>\<open>tag[i, j]\<close>: an index outside the array raises IndexError.\<close>

definition tag_at :: "int list list \<Rightarrow> nat \<Rightarrow> nat \<Rightarrow> error + int" where
  "tag_at tag i j =
     (if i < length tag \<and> j < length (tag ! i) then Inr (tag ! i ! j) else Inl IndexError)"

text \<open>A \<open>for\<close> loop over a list whose body may raise.\<close>

fun for_each :: "'a list \<Rightarrow> ('a \<Rightarrow> 's \<Rightarrow> error + 's) \<Rightarrow> 's \<Rightarrow> error + 's" where
  "for_each [] body s = Inr s"
| "for_each (x # xs) body s =
     (case body x s of Inl e \<Rightarrow> Inl e | Inr s' \<Rightarrow> for_each xs body s')"

text \<open>\<open>range(tag_per_side)\<close>: empty when the bound is not positive.\<close>

definition range :: "int \<Rightarrow> nat list" where
  "range n = [0..<nat n]"

definition module_rect :: "real \<Rightarrow> int \<Rightarrow> nat \<Rightarrow> nat \<Rightarrow> primitive" where
  "module_rect width tag_per_side i j =
     (let x = fst (april_org width tag_per_side) + fst (square_size width tag_per_side) * real j;
          y = fst (april_org width tag_per_side) + fst (square_size width tag_per_side) * real i
      in Rect (Dim x Cm, Dim y Cm)
              (Dim (fst (square_size width tag_per_side)) Cm,
               Dim (snd (square_size width tag_per_side)) Cm)
              ''white'' ''white'')"

definition cell_body ::
  "int list list \<Rightarrow> real \<Rightarrow> int \<Rightarrow> nat \<Rightarrow> nat \<Rightarrow> drawing \<Rightarrow> error + drawing" where
  "cell_body tag width tag_per_side i j dwg =
     (case tag_at tag i j of
        Inl e \<Rightarrow> Inl e
      | Inr v \<Rightarrow>
          Inr (if v = 255 then dwg_add (module_rect width tag_per_side i j) dwg else dwg))"

definition row_body ::
  "int list list \<Rightarrow> real \<Rightarrow> int \<Rightarrow> nat \<Rightarrow> drawing \<Rightarrow> error + drawing" where
  "row_body tag width tag_per_side i dwg =
     for_each (range tag_per_side) (cell_body tag width tag_per_side i) dwg"

definition modules_loop ::
  "int list list \<Rightarrow> real \<Rightarrow> int \<Rightarrow> drawing \<Rightarrow> error + drawing" where
  "modules_loop tag width tag_per_side dwg =
     for_each (range tag_per_side) (row_body tag width tag_per_side) dwg"

definition background_rect :: "real \<Rightarrow> int \<Rightarrow> bool \<Rightarrow> primitive" where
  "background_rect width tag_per_side print_label =
     Rect (Dim 0 User, Dim 0 User)
          (Dim (fst (fiducial_size width tag_per_side print_label)) Cm,
           Dim (snd (fiducial_size width tag_per_side print_label)) Cm)
          ''white'' ''white''"

definition tag_rect :: "real \<Rightarrow> int \<Rightarrow> primitive" where
  "tag_rect width tag_per_side =
     Rect (Dim (fst (april_org width tag_per_side)) Cm, Dim (snd (april_org width tag_per_side)) Cm)
          (Dim (real_of_int tag_per_side * fst (square_size width tag_per_side)) Cm,
           Dim (real_of_int tag_per_side * snd (square_size width tag_per_side)) Cm)
          ''black'' ''black''"

definition caption_text :: "int \<Rightarrow> real \<Rightarrow> int \<Rightarrow> primitive" where
  "caption_text tag_id width tag_per_side =
     Text (''id: '' @ str_int tag_id)
          (Dim (fst (caption_org width tag_per_side)) Cm,
           Dim (snd (caption_org width tag_per_side)) Cm)
          (Dim (font_size width) Em) ''black'' ''black''"

definition y_line :: "real \<Rightarrow> int \<Rightarrow> primitive" where
  "y_line width tag_per_side =
     Line (Dim (fst (axis_org width tag_per_side)) Cm, Dim (snd (axis_org width tag_per_side)) Cm)
          (Dim (fst (y_point width tag_per_side)) Cm, Dim (snd (y_point width tag_per_side)) Cm)
          ''black'' ''black'' (Dim (font_size width) User)"

definition y_text :: "real \<Rightarrow> int \<Rightarrow> primitive" where
  "y_text width tag_per_side =
     Text ''y''
          (Dim (fst (y_point width tag_per_side) * (104 / 100)) Cm,
           Dim (snd (y_point width tag_per_side)) Cm)
          (Dim (font_size width * (7 / 10)) Em) ''black'' ''black''"

definition z_line :: "real \<Rightarrow> int \<Rightarrow> primitive" where
  "z_line width tag_per_side =
     Line (Dim (fst (axis_org width tag_per_side)) Cm, Dim (snd (axis_org width tag_per_side)) Cm)
          (Dim (fst (z_point width tag_per_side)) Cm, Dim (snd (z_point width tag_per_side)) Cm)
          ''black'' ''black'' (Dim (font_size width) User)"

definition z_text :: "real \<Rightarrow> int \<Rightarrow> primitive" where
  "z_text width tag_per_side =
     Text ''z''
          (Dim (fst (z_point width tag_per_side) * (9 / 10)) Cm,
           Dim (snd (z_point width tag_per_side) * (105 / 100)) Cm)
          (Dim (font_size width * (7 / 10)) Em) ''black'' ''black''"

definition axis_circle :: "real \<Rightarrow> int \<Rightarrow> primitive" where
  "axis_circle width tag_per_side =
     Circle (Dim (fst (axis_org width tag_per_side)) Cm, Dim (snd (axis_org width tag_per_side)) Cm)
            (Dim (font_size width) User) ''black'' ''black'' (Dim (font_size width) User)"

definition label_block :: "int \<Rightarrow> real \<Rightarrow> int \<Rightarrow> drawing \<Rightarrow> drawing" where
  "label_block tag_id width tag_per_side dwg =
     dwg_add (axis_circle width tag_per_side)
       (dwg_add (z_text width tag_per_side)
         (dwg_add (z_line width tag_per_side)
           (dwg_add (y_text width tag_per_side)
             (dwg_add (y_line width tag_per_side)
               (dwg_add (caption_text tag_id width tag_per_side) dwg)))))"

text \<open>Lines 51 to 53: the empty drawing of the canvas size.\<close>

definition new_drawing :: "real \<Rightarrow> int \<Rightarrow> bool \<Rightarrow> drawing" where
  "new_drawing width tag_per_side print_label =
     \<lparr>size_of = (Dim (fst (fiducial_size width tag_per_side print_label)) Cm,
                 Dim (snd (fiducial_size width tag_per_side print_label)) Cm),
      elements = []\<rparr>"

text \<open>
  \<open>generate_fiducial\<close> up to \<open>dwg.save()\<close>: the drawing that is then written out.
  Line 33 divides by \<open>tag_per_side + 2\<close>, which raises ZeroDivisionError at \<open>- 2\<close>.
\<close>

definition generate_fiducial ::
  "int \<Rightarrow> int \<Rightarrow> int list list \<Rightarrow> real \<Rightarrow> bool \<Rightarrow> error + drawing" where
  "generate_fiducial tag_id tag_per_side tag width print_label =
     (if tag_per_side + 2 = 0 then Inl ZeroDivisionError
      else
        let dwg0 = new_drawing width tag_per_side print_label;
            dwg1 = dwg_add (background_rect width tag_per_side print_label) dwg0;
            dwg2 = dwg_add (tag_rect width tag_per_side) dwg1
        in case modules_loop tag width tag_per_side dwg2 of
             Inl e \<Rightarrow> Inl e
           | Inr dwg3 \<Rightarrow>
               Inr (if print_label then label_block tag_id width tag_per_side dwg3 else dwg3))"

section \<open>Vocabulary of the properties\<close>

text \<open>The matrix handed over for a family of dimension \<open>n\<close> is n by n.\<close>

definition square_matrix :: "int \<Rightarrow> int list list \<Rightarrow> bool" where
  "square_matrix n tag = (length tag = nat n \<and> list_all (\<lambda>row. length row = nat n) tag)"

text \<open>The number of cells holding 255.\<close>

definition light_cells :: "int list list \<Rightarrow> nat" where
  "light_cells tag = sum_list (map (\<lambda>row. length (filter (\<lambda>v. v = 255) row)) tag)"

text \<open>The elements of the drawing a run ends with; none when it raised.\<close>

definition emitted :: "error + drawing \<Rightarrow> primitive list" where
  "emitted r = (case r of Inl e \<Rightarrow> [] | Inr dwg \<Rightarrow> elements dwg)"

text \<open>The rectangles of the cells holding 255, row by row and column by column.\<close>

definition light_rects :: "int list list \<Rightarrow> real \<Rightarrow> int \<Rightarrow> primitive list" where
  "light_rects tag width n =
     map (\<lambda>(i, j). module_rect width n i j)
       (filter (\<lambda>(i, j). tag ! i ! j = 255) (List.product (range n) (range n)))"

definition label_prims :: "int \<Rightarrow> real \<Rightarrow> int \<Rightarrow> primitive list" where
  "label_prims tag_id width n =
     [caption_text tag_id width n, y_line width n, y_text width n,
      z_line width n, z_text width n, axis_circle width n]"

definition is_rect :: "primitive \<Rightarrow> bool" where
  "is_rect p = (case p of Rect a b c d \<Rightarrow> True | _ \<Rightarrow> False)"

definition is_line :: "primitive \<Rightarrow> bool" where
  "is_line p = (case p of Line a b c d e \<Rightarrow> True | _ \<Rightarrow> False)"

definition is_circle :: "primitive \<Rightarrow> bool" where
  "is_circle p = (case p of Circle a b c d e \<Rightarrow> True | _ \<Rightarrow> False)"

definition is_text :: "primitive \<Rightarrow> bool" where
  "is_text p = (case p of Text a b c d e \<Rightarrow> True | _ \<Rightarrow> False)"

text \<open>The scenario matrix: 4 by 4, one light cell, at row 0 and column 0.\<close>

definition scenario_tag :: "int list list" where
  "scenario_tag = [[255, 0, 0, 0], [0, 0, 0, 0], [0, 0, 0, 0], [0, 0, 0, 0]]"

text \<open>Two numbers agree to the four decimals the scenario prints.\<close>

definition approx4 :: "real \<Rightarrow> real \<Rightarrow> bool" where
  "approx4 x y = (\<bar>x - y\<bar> \<le> 5 / 100000)"

text \<open>A text element with the given content, placed (in cm) near the given point.\<close>

definition text_near :: "string \<Rightarrow> real \<Rightarrow> real \<Rightarrow> primitive \<Rightarrow> bool" where
  "text_near content cx cy p =
     (case p of
        Text s pos fs fill stroke \<Rightarrow>
          (case pos of (Dim x ux, Dim y uy) \<Rightarrow>
             s = content \<and> ux = Cm \<and> uy = Cm \<and> approx4 x cx \<and> approx4 y cy)
      | _ \<Rightarrow> False)"

text \<open>A length is in centimetres; the length zero is the same in every unit.\<close>

definition in_cm :: "dim \<Rightarrow> bool" where
  "in_cm d = (case d of Dim v u \<Rightarrow> u = Cm \<or> v = 0)"

definition has_unit :: "unit \<Rightarrow> dim \<Rightarrow> bool" where
  "has_unit u d = (case d of Dim v u' \<Rightarrow> u' = u)"

text \<open>Every scalar dimension of the element is in centimetres.\<close>

definition all_cm :: "primitive \<Rightarrow> bool" where
  "all_cm p =
     (case p of
        Rect pos sz fill stroke \<Rightarrow> in_cm (fst pos) \<and> in_cm (snd pos) \<and> in_cm (fst sz) \<and> in_cm (snd sz)
      | Text s pos fs fill stroke \<Rightarrow> in_cm (fst pos) \<and> in_cm (snd pos) \<and> in_cm fs
      | Line a b fill stroke sw \<Rightarrow>
          in_cm (fst a) \<and> in_cm (snd a) \<and> in_cm (fst b) \<and> in_cm (snd b) \<and> in_cm sw
      | Circle c r fill stroke sw \<Rightarrow> in_cm (fst c) \<and> in_cm (snd c) \<and> in_cm r \<and> in_cm sw)"

text \<open>
  Positions, rectangle sizes, line end points and circle centres are in centimetres, font
  sizes in em, stroke widths and the radius in user units.
\<close>

definition units_as_drawn :: "primitive \<Rightarrow> bool" where
  "units_as_drawn p =
     (case p of
        Rect pos sz fill stroke \<Rightarrow> in_cm (fst pos) \<and> in_cm (snd pos) \<and> in_cm (fst sz) \<and> in_cm (snd sz)
      | Text s pos fs fill stroke \<Rightarrow> in_cm (fst pos) \<and> in_cm (snd pos) \<and> has_unit Em fs
      | Line a b fill stroke sw \<Rightarrow>
          in_cm (fst a) \<and> in_cm (snd a) \<and> in_cm (fst b) \<and> in_cm (snd b) \<and> has_unit User sw
      | Circle c r fill stroke sw \<Rightarrow>
          in_cm (fst c) \<and> in_cm (snd c) \<and> has_unit User r \<and> has_unit User sw)"

section \<open>The loops\<close>

lemma for_each_total:
  assumes "\<And>x s. x \<in> set xs \<Longrightarrow> body x s = Inr (f x s)"
  shows "for_each xs body s = Inr (fold f xs s)"
  using assms by (induction xs arbitrary: s) simp_all

lemma fold_add_if:
  "fold (\<lambda>x d. if P x then dwg_add (g x) d else d) xs dwg =
   dwg\<lparr>elements := elements dwg @ map g (filter P xs)\<rparr>"
  by (induction xs arbitrary: dwg) (simp_all add: dwg_add_def)

lemma fold_append_elements:
  "fold (\<lambda>x d. d\<lparr>elements := elements d @ h x\<rparr>) xs dwg =
   dwg\<lparr>elements := elements dwg @ concat (map h xs)\<rparr>"
  by (induction xs arbitrary: dwg) simp_all

lemma square_matrix_row:
  "square_matrix n tag \<Longrightarrow> i < nat n \<Longrightarrow> i < length tag \<and> length (tag ! i) = nat n"
  by (simp add: square_matrix_def list_all_length)

lemma cell_body_square:
  assumes "square_matrix n tag" "i < nat n" "j \<in> set (range n)"
  shows "cell_body tag width n i j dwg =
         Inr (if tag ! i ! j = 255 then dwg_add (module_rect width n i j) dwg else dwg)"
  using assms square_matrix_row [of n tag i]
  by (simp add: cell_body_def tag_at_def range_def)

lemma row_body_square:
  assumes "square_matrix n tag" "i \<in> set (range n)"
  shows "row_body tag width n i dwg =
         Inr (dwg\<lparr>elements := elements dwg @
                map (module_rect width n i) (filter (\<lambda>j. tag ! i ! j = 255) (range n))\<rparr>)"
proof -
  have i: "i < nat n" using assms(2) by (simp add: range_def)
  have "row_body tag width n i dwg =
        Inr (fold (\<lambda>j d. if tag ! i ! j = 255 then dwg_add (module_rect width n i j) d else d)
               (range n) dwg)"
    unfolding row_body_def
    by (rule for_each_total) (rule cell_body_square [OF assms(1) i])
  then show ?thesis by (simp add: fold_add_if)
qed

lemma filter_product_rows:
  "map (\<lambda>(i, j). g i j) (filter (\<lambda>(i, j). P i j) (List.product xs ys)) =
   concat (map (\<lambda>i. map (g i) (filter (P i) ys)) xs)"
  by (induction xs) (simp_all add: filter_map comp_def)

lemma modules_loop_square:
  assumes "square_matrix n tag"
  shows "modules_loop tag width n dwg =
         Inr (dwg\<lparr>elements := elements dwg @ light_rects tag width n\<rparr>)"
proof -
  have "modules_loop tag width n dwg =
        Inr (fold (\<lambda>i d. d\<lparr>elements := elements d @
                    map (module_rect width n i) (filter (\<lambda>j. tag ! i ! j = 255) (range n))\<rparr>)
               (range n) dwg)"
    unfolding modules_loop_def
    by (rule for_each_total) (rule row_body_square [OF assms])
  then show ?thesis
    by (simp add: fold_append_elements light_rects_def filter_product_rows)
qed

lemma generate_fiducial_square:
  assumes "square_matrix n tag" "n \<noteq> - 2"
  shows "generate_fiducial tag_id n tag width print_label =
         Inr \<lparr>size_of = (Dim (fst (fiducial_size width n print_label)) Cm,
                         Dim (snd (fiducial_size width n print_label)) Cm),
              elements = background_rect width n print_label # tag_rect width n #
                         light_rects tag width n @
                         (if print_label then label_prims tag_id width n else [])\<rparr>"
  using assms
  by (simp add: generate_fiducial_def Let_def modules_loop_square dwg_add_def label_block_def
      label_prims_def new_drawing_def)

lemma light_rects_length:
  assumes "square_matrix n tag"
  shows "length (light_rects tag width n) = light_cells tag"
proof -
  have row: "length (filter (\<lambda>j. tag ! i ! j = 255) (range n)) =
             length (filter (\<lambda>v. v = 255) (tag ! i))" if "i < nat n" for i
  proof -
    have len: "length (tag ! i) = nat n" using square_matrix_row [OF assms that] by simp
    have "filter (\<lambda>v. v = 255) (tag ! i) =
          filter (\<lambda>v. v = 255) (map (\<lambda>j. tag ! i ! j) [0..<length (tag ! i)])"
      by (simp add: map_nth)
    also have "\<dots> = map (\<lambda>j. tag ! i ! j) (filter (\<lambda>j. tag ! i ! j = 255) (range n))"
      by (simp add: filter_map comp_def len range_def)
    finally show ?thesis by simp
  qed
  have "length (light_rects tag width n) =
        sum_list (map (\<lambda>i. length (filter (\<lambda>j. tag ! i ! j = 255) (range n))) (range n))"
    by (simp add: light_rects_def filter_product_rows length_concat comp_def)
  also have "\<dots> = sum_list (map (\<lambda>i. length (filter (\<lambda>v. v = 255) (tag ! i))) (range n))"
    by (rule arg_cong [where f = sum_list], rule map_cong [OF refl])
       (use row in \<open>simp add: range_def\<close>)
  also have "\<dots> = sum_list (map (\<lambda>i. length (filter (\<lambda>v. v = 255) (tag ! i))) [0..<length tag])"
    using assms by (simp add: range_def square_matrix_def)
  also have "\<dots> = sum_list (map (\<lambda>row. length (filter (\<lambda>v. v = 255) row)) (map (\<lambda>i. tag ! i) [0..<length tag]))"
    by (simp add: comp_def)
  also have "\<dots> = light_cells tag"
    by (simp add: light_cells_def map_nth)
  finally show ?thesis .
qed

section \<open>The scenario of the specification, evaluated\<close>

lemma scenario_square: "square_matrix 4 scenario_tag"
  by (simp add: square_matrix_def scenario_tag_def)

lemma scenario_light_rects:
  "light_rects scenario_tag 5 4 =
     [Rect (Dim (5 / 6) Cm, Dim (5 / 6) Cm) (Dim (5 / 6) Cm, Dim (5 / 6) Cm) ''white'' ''white'']"
  by (simp add: light_rects_def range_def scenario_tag_def upt_rec module_rect_def
      april_org_def square_size_def square_side_def)

lemma scenario_labelled:
  "emitted (generate_fiducial 7 4 scenario_tag 5 True) =
     [Rect (Dim 0 User, Dim 0 User) (Dim 5 Cm, Dim (20 / 3) Cm) ''white'' ''white'',
      Rect (Dim (5 / 6) Cm, Dim (5 / 6) Cm) (Dim (10 / 3) Cm, Dim (10 / 3) Cm) ''black'' ''black'',
      Rect (Dim (5 / 6) Cm, Dim (5 / 6) Cm) (Dim (5 / 6) Cm, Dim (5 / 6) Cm) ''white'' ''white'',
      Text ''id: 7'' (Dim (25 / 24) Cm, Dim (145 / 24) Cm) (Dim 1 Em) ''black'' ''black'',
      Line (Dim (10 / 3) Cm, Dim (145 / 24) Cm) (Dim (95 / 24) Cm, Dim (145 / 24) Cm)
        ''black'' ''black'' (Dim 1 User),
      Text ''y'' (Dim (247 / 60) Cm, Dim (145 / 24) Cm) (Dim (7 / 10) Em) ''black'' ''black'',
      Line (Dim (10 / 3) Cm, Dim (145 / 24) Cm) (Dim (10 / 3) Cm, Dim (65 / 12) Cm)
        ''black'' ''black'' (Dim 1 User),
      Text ''z'' (Dim 3 Cm, Dim (91 / 16) Cm) (Dim (7 / 10) Em) ''black'' ''black'',
      Circle (Dim (10 / 3) Cm, Dim (145 / 24) Cm) (Dim 1 User) ''black'' ''black'' (Dim 1 User)]"
proof -
  have "(4::int) \<noteq> - 2" by simp
  from generate_fiducial_square [OF scenario_square this, of 7 5 True] show ?thesis
    by (simp add: emitted_def scenario_light_rects background_rect_def tag_rect_def
        label_prims_def caption_text_def y_line_def y_text_def z_line_def z_text_def
        axis_circle_def fiducial_size_def height_def april_org_def square_size_def
        square_side_def caption_org_def axis_org_def y_point_def z_point_def font_size_def
        str_int_def digits.simps digit_char_def)
qed

lemma module_rect_inj:
  assumes "square_side width n \<noteq> 0"
  shows "(module_rect width n i' j' = module_rect width n i j) = (i' = i \<and> j' = j)"
  using assms by (auto simp add: module_rect_def april_org_def square_size_def Let_def)

section \<open>Module size\<close>

text \<open>
  C1: for every matrix dimension n >= 1 and every width > 0 the module size is
  width / (n + 2), and the module size times (n + 2) is the width again.
\<close>

theorem module_size_exact:
  assumes "1 \<le> n" and "0 < width"
  shows "square_side width n = width / (real_of_int n + 2)
         \<and> square_side width n * (real_of_int n + 2) = width"
  using assms by (simp add: square_side_def)

theorem module_size_exact_witness:
  "(1::int) \<le> 4 \<and> (0::real) < 5 \<and> square_side 5 4 = 5 / (real_of_int 4 + 2)
   \<and> square_side 5 4 * (real_of_int 4 + 2) = 5"
  using module_size_exact [of 4 5] by simp

section \<open>Canvas size\<close>

text \<open>
  C2: for every n >= 1 and width > 0 the canvas size is (width, width + 2 * module size)
  with the label and (width, width) without it, so its width is the given width in both
  cases; the drawing is created with that size, in centimetres.
\<close>

theorem canvas_size:
  assumes "1 \<le> n" and "0 < width"
  shows "fiducial_size width n True = (width, width + 2 * (width / (real_of_int n + 2)))
         \<and> fiducial_size width n False = (width, width)
         \<and> fst (fiducial_size width n print_label) = width
         \<and> size_of (new_drawing width n print_label) =
             (Dim width Cm,
              Dim (if print_label then width + 2 * (width / (real_of_int n + 2)) else width) Cm)"
  using assms by (simp add: fiducial_size_def height_def square_side_def new_drawing_def)

theorem canvas_size_witness:
  "(1::int) \<le> 4 \<and> (0::real) < 5
   \<and> fiducial_size 5 4 True = (5, 20 / 3) \<and> fiducial_size 5 4 False = (5, 5)
   \<and> size_of (new_drawing 5 4 True) = (Dim 5 Cm, Dim (20 / 3) Cm)"
  using canvas_size [of 4 5 True] by simp

section \<open>Placement of the tag block\<close>

text \<open>
  C3: for every n >= 1 and width > 0 the tag block starts at (module size, module size);
  the second element of the drawing is the black rectangle at that place of size
  (n * module size, n * module size); so one module (of positive size) lies left of and
  above the block, the block ends one module before the right edge, and one module lies
  between its lower edge and the height \<open>width\<close>, where the label band starts and below
  which the canvas never ends.
\<close>

theorem tag_block_inscribed:
  assumes "1 \<le> n" and "0 < width" and "square_matrix n tag"
  shows "april_org width n = (square_side width n, square_side width n)
         \<and> emitted (generate_fiducial tag_id n tag width print_label) ! 1 =
             Rect (Dim (square_side width n) Cm, Dim (square_side width n) Cm)
                  (Dim (real_of_int n * square_side width n) Cm,
                   Dim (real_of_int n * square_side width n) Cm) ''black'' ''black''
         \<and> 0 < square_side width n
         \<and> square_side width n + real_of_int n * square_side width n + square_side width n
             = fst (fiducial_size width n print_label)
         \<and> square_side width n + real_of_int n * square_side width n + square_side width n
             = width
         \<and> width \<le> snd (fiducial_size width n print_label)"
proof -
  have n2: "n \<noteq> - 2" using assms(1) by simp
  have pos: "0 < square_side width n"
    using assms(1,2) by (simp add: square_side_def)
  have sum: "square_side width n + real_of_int n * square_side width n + square_side width n
             = width"
  proof -
    have "square_side width n + real_of_int n * square_side width n + square_side width n
          = square_side width n * (real_of_int n + 2)"
      by (simp add: algebra_simps)
    also have "\<dots> = width" using assms(1) by (simp add: square_side_def)
    finally show ?thesis .
  qed
  have second: "emitted (generate_fiducial tag_id n tag width print_label) ! 1 = tag_rect width n"
    by (simp add: generate_fiducial_square [OF assms(3) n2] emitted_def)
  have hgt: "width \<le> snd (fiducial_size width n print_label)"
    using pos by (simp add: fiducial_size_def height_def)
  show ?thesis
    using pos sum second hgt
    by (simp add: april_org_def tag_rect_def square_size_def fiducial_size_def)
qed

theorem tag_block_inscribed_witness:
  "(1::int) \<le> 4 \<and> (0::real) < 5 \<and> square_matrix 4 scenario_tag
   \<and> april_org 5 4 = (5 / 6, 5 / 6)
   \<and> emitted (generate_fiducial 7 4 scenario_tag 5 True) ! 1 =
       Rect (Dim (5 / 6) Cm, Dim (5 / 6) Cm) (Dim (10 / 3) Cm, Dim (10 / 3) Cm)
         ''black'' ''black''"
  using tag_block_inscribed [of 4 5 scenario_tag 7 True]
  by (simp add: square_matrix_def scenario_tag_def square_side_def)

section \<open>Light modules\<close>

text \<open>
  C4: for every n by n matrix the loop adds exactly the white rectangles of the cells that
  hold 255, one for each such cell and none for any other, in row-major order (rows
  outside, columns inside); the rectangle of cell (i, j) is at the tag origin moved by
  (j * module size, i * module size) and has size (module size, module size); so the
  number of rectangles added is the number of cells holding 255.
\<close>

theorem light_modules:
  assumes "square_matrix n tag"
  shows "modules_loop tag width n dwg =
           Inr (dwg\<lparr>elements := elements dwg @ light_rects tag width n\<rparr>)
         \<and> light_rects tag width n =
             map (\<lambda>(i, j). Rect (Dim (fst (april_org width n) + real j * square_side width n) Cm,
                                  Dim (snd (april_org width n) + real i * square_side width n) Cm)
                                 (Dim (square_side width n) Cm, Dim (square_side width n) Cm)
                                 ''white'' ''white'')
               (filter (\<lambda>(i, j). tag ! i ! j = 255) (List.product [0..<nat n] [0..<nat n]))
         \<and> length (light_rects tag width n) = light_cells tag"
proof -
  have "module_rect width n i j =
        Rect (Dim (fst (april_org width n) + real j * square_side width n) Cm,
              Dim (snd (april_org width n) + real i * square_side width n) Cm)
             (Dim (square_side width n) Cm, Dim (square_side width n) Cm) ''white'' ''white''"
    for i j
    by (simp add: module_rect_def april_org_def square_size_def Let_def mult.commute)
  then have "light_rects tag width n =
             map (\<lambda>(i, j). Rect (Dim (fst (april_org width n) + real j * square_side width n) Cm,
                                  Dim (snd (april_org width n) + real i * square_side width n) Cm)
                                 (Dim (square_side width n) Cm, Dim (square_side width n) Cm)
                                 ''white'' ''white'')
               (filter (\<lambda>(i, j). tag ! i ! j = 255) (List.product [0..<nat n] [0..<nat n]))"
    by (simp add: light_rects_def range_def)
  with modules_loop_square [OF assms] light_rects_length [OF assms]
  show ?thesis by (intro conjI)
qed

theorem light_modules_witness:
  "square_matrix 4 scenario_tag
   \<and> modules_loop scenario_tag 5 4 \<lparr>size_of = (Dim 5 Cm, Dim 5 Cm), elements = []\<rparr> =
       Inr \<lparr>size_of = (Dim 5 Cm, Dim 5 Cm),
            elements = [Rect (Dim (5 / 6) Cm, Dim (5 / 6) Cm) (Dim (5 / 6) Cm, Dim (5 / 6) Cm)
                          ''white'' ''white'']\<rparr>
   \<and> light_cells scenario_tag = 1"
proof -
  note sq = scenario_square
  note l = scenario_light_rects
  show ?thesis
    using light_modules [OF sq, of 5 "\<lparr>size_of = (Dim 5 Cm, Dim 5 Cm), elements = []\<rparr>"] sq l
    by (simp add: light_cells_def scenario_tag_def)
qed

section \<open>Order of emission\<close>

text \<open>
  C5: for every n by n matrix (n + 2 not zero) the run ends with a drawing whose elements
  are, in this order: the white rectangle over the whole canvas, the black rectangle of
  the tag block, the white rectangles of the light modules, and then, exactly when the
  label is printed, the caption "id: " followed by the tag id at the caption origin with
  the font size, the y axis line and the text "y", the z axis line and the text "z", and
  the circle at the axis origin whose radius is the font size. Without the label every
  element is a rectangle.
\<close>

theorem emission_order:
  assumes "square_matrix n tag" and "n \<noteq> - 2"
  shows "generate_fiducial tag_id n tag width print_label =
           Inr \<lparr>size_of = (Dim width Cm, Dim (height width n print_label) Cm),
                elements =
                  [Rect (Dim 0 User, Dim 0 User)
                        (Dim width Cm, Dim (height width n print_label) Cm) ''white'' ''white'',
                   tag_rect width n]
                  @ light_rects tag width n
                  @ (if print_label
                     then [Text (''id: '' @ str_int tag_id)
                             (Dim (fst (caption_org width n)) Cm, Dim (snd (caption_org width n)) Cm)
                             (Dim (font_size width) Em) ''black'' ''black'',
                           Line (Dim (fst (axis_org width n)) Cm, Dim (snd (axis_org width n)) Cm)
                                (Dim (fst (y_point width n)) Cm, Dim (snd (y_point width n)) Cm)
                                ''black'' ''black'' (Dim (font_size width) User),
                           Text ''y''
                             (Dim (fst (y_point width n) * (104 / 100)) Cm,
                              Dim (snd (y_point width n)) Cm)
                             (Dim (font_size width * (7 / 10)) Em) ''black'' ''black'',
                           Line (Dim (fst (axis_org width n)) Cm, Dim (snd (axis_org width n)) Cm)
                                (Dim (fst (z_point width n)) Cm, Dim (snd (z_point width n)) Cm)
                                ''black'' ''black'' (Dim (font_size width) User),
                           Text ''z''
                             (Dim (fst (z_point width n) * (9 / 10)) Cm,
                              Dim (snd (z_point width n) * (105 / 100)) Cm)
                             (Dim (font_size width * (7 / 10)) Em) ''black'' ''black'',
                           Circle (Dim (fst (axis_org width n)) Cm, Dim (snd (axis_org width n)) Cm)
                                  (Dim (font_size width) User) ''black'' ''black''
                                  (Dim (font_size width) User)]
                     else [])\<rparr>
         \<and> list_all is_rect (light_rects tag width n)
         \<and> (print_label \<or>
              list_all is_rect (emitted (generate_fiducial tag_id n tag width print_label)))"
proof -
  have lights: "list_all is_rect (light_rects tag width n)"
    by (simp add: light_rects_def list_all_iff module_rect_def is_rect_def Let_def)
  have gen: "generate_fiducial tag_id n tag width print_label =
         Inr \<lparr>size_of = (Dim (fst (fiducial_size width n print_label)) Cm,
                         Dim (snd (fiducial_size width n print_label)) Cm),
              elements = background_rect width n print_label # tag_rect width n #
                         light_rects tag width n @
                         (if print_label then label_prims tag_id width n else [])\<rparr>"
    by (rule generate_fiducial_square [OF assms])
  have unlabelled: "list_all is_rect (emitted (generate_fiducial tag_id n tag width print_label))"
    if "\<not> print_label"
    unfolding gen using that lights
    by (simp add: emitted_def background_rect_def tag_rect_def is_rect_def)
  have shape: "generate_fiducial tag_id n tag width print_label = Inr \<lparr>size_of = (Dim width Cm, Dim (height width n print_label) Cm),
                elements =
                  [Rect (Dim 0 User, Dim 0 User)
                        (Dim width Cm, Dim (height width n print_label) Cm) ''white'' ''white'',
                   tag_rect width n]
                  @ light_rects tag width n
                  @ (if print_label
                     then [Text (''id: '' @ str_int tag_id)
                             (Dim (fst (caption_org width n)) Cm, Dim (snd (caption_org width n)) Cm)
                             (Dim (font_size width) Em) ''black'' ''black'',
                           Line (Dim (fst (axis_org width n)) Cm, Dim (snd (axis_org width n)) Cm)
                                (Dim (fst (y_point width n)) Cm, Dim (snd (y_point width n)) Cm)
                                ''black'' ''black'' (Dim (font_size width) User),
                           Text ''y''
                             (Dim (fst (y_point width n) * (104 / 100)) Cm,
                              Dim (snd (y_point width n)) Cm)
                             (Dim (font_size width * (7 / 10)) Em) ''black'' ''black'',
                           Line (Dim (fst (axis_org width n)) Cm, Dim (snd (axis_org width n)) Cm)
                                (Dim (fst (z_point width n)) Cm, Dim (snd (z_point width n)) Cm)
                                ''black'' ''black'' (Dim (font_size width) User),
                           Text ''z''
                             (Dim (fst (z_point width n) * (9 / 10)) Cm,
                              Dim (snd (z_point width n) * (105 / 100)) Cm)
                             (Dim (font_size width * (7 / 10)) Em) ''black'' ''black'',
                           Circle (Dim (fst (axis_org width n)) Cm, Dim (snd (axis_org width n)) Cm)
                                  (Dim (font_size width) User) ''black'' ''black''
                                  (Dim (font_size width) User)]
                     else [])\<rparr>"
    unfolding gen
    by (simp add: fiducial_size_def background_rect_def label_prims_def caption_text_def
        y_line_def y_text_def z_line_def z_text_def axis_circle_def)
  from shape lights unlabelled show ?thesis by blast
qed

theorem emission_order_witness:
  "square_matrix 4 scenario_tag \<and> (4::int) \<noteq> - 2
   \<and> emitted (generate_fiducial 7 4 scenario_tag 5 False) =
       [Rect (Dim 0 User, Dim 0 User) (Dim 5 Cm, Dim 5 Cm) ''white'' ''white'',
        Rect (Dim (5 / 6) Cm, Dim (5 / 6) Cm) (Dim (10 / 3) Cm, Dim (10 / 3) Cm)
          ''black'' ''black'',
        Rect (Dim (5 / 6) Cm, Dim (5 / 6) Cm) (Dim (5 / 6) Cm, Dim (5 / 6) Cm)
          ''white'' ''white'']"
proof -
  note sq = scenario_square
  note l = scenario_light_rects
  have "(4::int) \<noteq> - 2" by simp
  from emission_order [OF sq this, of 7 5 False] sq l show ?thesis
    by (simp add: emitted_def height_def tag_rect_def april_org_def square_size_def
        square_side_def)
qed

section \<open>Label geometry\<close>

text \<open>
  C6: for every n >= 1 and width > 0, with m the module size width / (n + 2): the font
  size is width / 5, the caption origin (1.25 m, width + 1.25 m), the axis origin
  (width - 2 m, width + 1.25 m), the y end point the axis origin moved by (0.75 m, 0) and
  the z end point the axis origin moved by (0, - 0.75 m).
\<close>

theorem label_geometry:
  assumes "1 \<le> n" and "0 < width" and "m = width / (real_of_int n + 2)"
  shows "font_size width = width / 5
         \<and> caption_org width n = (m * (125 / 100), width + m * (125 / 100))
         \<and> axis_org width n = (width - m * 2, width + m * (125 / 100))
         \<and> y_point width n = (fst (axis_org width n) + (75 / 100) * m, snd (axis_org width n))
         \<and> z_point width n = (fst (axis_org width n), snd (axis_org width n) - (75 / 100) * m)"
  using assms
  by (simp add: font_size_def caption_org_def axis_org_def y_point_def z_point_def
      square_side_def)

theorem label_geometry_witness:
  "(1::int) \<le> 4 \<and> (0::real) < 5 \<and> (5 / 6 :: real) = 5 / (real_of_int 4 + 2)
   \<and> font_size 5 = 1
   \<and> caption_org 5 4 = (25 / 24, 145 / 24)
   \<and> axis_org 5 4 = (10 / 3, 145 / 24)
   \<and> y_point 5 4 = (95 / 24, 145 / 24)
   \<and> z_point 5 4 = (10 / 3, 65 / 12)"
  using label_geometry [of 4 5 "5 / 6"] by simp

section \<open>The labelled scenario\<close>

text \<open>
  The scenario n = 4, one light cell at (0, 0), width 5, label printed, tag id 7: the
  caption is the fourth element and sits at (25/24, 145/24), about (1.0417, 6.0417); its
  second coordinate is not 5.8333 to four decimals, and no text "id: 7" of the drawing is
  near (1.0417, 5.8333).
\<close>

theorem scenario_caption_counterexample:
  "emitted (generate_fiducial 7 4 scenario_tag 5 True) ! 3 =
     Text ''id: 7'' (Dim (25 / 24) Cm, Dim (145 / 24) Cm) (Dim 1 Em) ''black'' ''black''
   \<and> \<not> approx4 (145 / 24) (58333 / 10000)
   \<and> \<not> list_ex (text_near ''id: 7'' (10417 / 10000) (58333 / 10000))
         (emitted (generate_fiducial 7 4 scenario_tag 5 True))"
  by (simp add: scenario_labelled text_near_def approx4_def)

text \<open>
  C7, amended: in that scenario the drawing holds the text "id: 7" at about
  (1.0417, 6.0417), the two short texts "y" and "z", two lines, and one circle, at the
  axis origin; nine elements in all.
\<close>

theorem scenario_with_label:
  "list_ex (text_near ''id: 7'' (10417 / 10000) (60417 / 10000))
     (emitted (generate_fiducial 7 4 scenario_tag 5 True))
   \<and> filter is_text (emitted (generate_fiducial 7 4 scenario_tag 5 True)) =
       [Text ''id: 7'' (Dim (25 / 24) Cm, Dim (145 / 24) Cm) (Dim 1 Em) ''black'' ''black'',
        Text ''y'' (Dim (247 / 60) Cm, Dim (145 / 24) Cm) (Dim (7 / 10) Em) ''black'' ''black'',
        Text ''z'' (Dim 3 Cm, Dim (91 / 16) Cm) (Dim (7 / 10) Em) ''black'' ''black'']
   \<and> length (filter is_line (emitted (generate_fiducial 7 4 scenario_tag 5 True))) = 2
   \<and> filter is_circle (emitted (generate_fiducial 7 4 scenario_tag 5 True)) =
       [Circle (Dim (fst (axis_org 5 4)) Cm, Dim (snd (axis_org 5 4)) Cm)
          (Dim 1 User) ''black'' ''black'' (Dim 1 User)]
   \<and> length (emitted (generate_fiducial 7 4 scenario_tag 5 True)) = 9"
  by (simp add: scenario_labelled text_near_def approx4_def is_text_def is_line_def
      is_circle_def axis_org_def square_side_def)

section \<open>Units\<close>

text \<open>
  In the labelled scenario not every dimension is in centimetres: the last element, the
  circle, has its centre in centimetres and its radius and stroke width as bare numbers.
\<close>

theorem units_counterexample:
  "\<not> list_all all_cm (emitted (generate_fiducial 7 4 scenario_tag 5 True))
   \<and> \<not> all_cm (emitted (generate_fiducial 7 4 scenario_tag 5 True) ! 8)
   \<and> emitted (generate_fiducial 7 4 scenario_tag 5 True) ! 8 =
       Circle (Dim (10 / 3) Cm, Dim (145 / 24) Cm) (Dim 1 User) ''black'' ''black'' (Dim 1 User)"
  by (simp add: scenario_labelled all_cm_def in_cm_def)

text \<open>
  C8, amended: for every n by n matrix (n + 2 not zero) the run raises no error, and in
  every element of the drawing the positions, rectangle sizes, line end points and circle
  centres are in centimetres (the corner (0, 0) of the background is a bare zero), the
  font sizes of the texts are in em, and the stroke widths of the lines and the radius and
  stroke width of the circle are bare numbers, that is user units.
\<close>

theorem units_as_written:
  assumes "square_matrix n tag" and "n \<noteq> - 2"
  shows "generate_fiducial tag_id n tag width print_label \<noteq> Inl IndexError
         \<and> generate_fiducial tag_id n tag width print_label \<noteq> Inl ZeroDivisionError
         \<and> list_all units_as_drawn (emitted (generate_fiducial tag_id n tag width print_label))"
proof -
  have lights: "list_all units_as_drawn (light_rects tag width n)"
    by (simp add: light_rects_def list_all_iff module_rect_def units_as_drawn_def in_cm_def
        Let_def)
  have label: "list_all units_as_drawn (label_prims tag_id width n)"
    by (simp add: label_prims_def caption_text_def y_line_def y_text_def z_line_def z_text_def
        axis_circle_def units_as_drawn_def in_cm_def has_unit_def)
  have frame: "units_as_drawn (background_rect width n print_label)"
              "units_as_drawn (tag_rect width n)"
    by (simp_all add: background_rect_def tag_rect_def units_as_drawn_def in_cm_def)
  show ?thesis
    using lights label frame
    by (simp add: generate_fiducial_square [OF assms] emitted_def)
qed

theorem units_as_written_witness:
  "square_matrix 4 scenario_tag \<and> (4::int) \<noteq> - 2
   \<and> list_all units_as_drawn (emitted (generate_fiducial 7 4 scenario_tag 5 True))
   \<and> length (emitted (generate_fiducial 7 4 scenario_tag 5 True)) = 9"
proof -
  have "(4::int) \<noteq> - 2" by simp
  from units_as_written [OF scenario_square this, of 7 5 True] scenario_square show ?thesis
    by (simp add: scenario_labelled)
qed

section \<open>Light means 255\<close>

text \<open>
  C10: for n >= 1, width > 0, an n by n matrix and a cell (i, j) of it, the white
  rectangle of the cell is among the elements of the drawing exactly when the cell holds
  255; whatever else it holds, no such rectangle is drawn, and the cell's square lies
  inside the black rectangle of the tag block, which is always drawn.
\<close>

theorem light_iff_255:
  assumes "1 \<le> n" and "0 < width" and "square_matrix n tag" and "i < nat n" and "j < nat n"
  shows "(module_rect width n i j
            \<in> set (emitted (generate_fiducial tag_id n tag width print_label)))
           = (tag ! i ! j = 255)
         \<and> tag_rect width n \<in> set (emitted (generate_fiducial tag_id n tag width print_label))
         \<and> module_rect width n i j =
             Rect (Dim (square_side width n + real j * square_side width n) Cm,
                   Dim (square_side width n + real i * square_side width n) Cm)
                  (Dim (square_side width n) Cm, Dim (square_side width n) Cm)
                  ''white'' ''white''
         \<and> square_side width n + real j * square_side width n + square_side width n
             \<le> square_side width n + real_of_int n * square_side width n
         \<and> square_side width n + real i * square_side width n + square_side width n
             \<le> square_side width n + real_of_int n * square_side width n"
proof -
  have n2: "n \<noteq> - 2" using assms(1) by simp
  have pos: "0 < square_side width n"
    using assms(1,2) by (simp add: square_side_def)
  then have nz: "square_side width n \<noteq> 0" by simp
  have in_lights: "(module_rect width n i j \<in> set (light_rects tag width n)) = (tag ! i ! j = 255)"
    using assms(4,5) by (auto simp add: light_rects_def range_def module_rect_inj [OF nz])
  have not_frame: "module_rect width n i j \<noteq> background_rect width n print_label"
                  "module_rect width n i j \<noteq> tag_rect width n"
    by (simp_all add: module_rect_def background_rect_def tag_rect_def Let_def)
  have not_label: "module_rect width n i j \<notin> set (label_prims tag_id width n)"
    by (simp add: module_rect_def label_prims_def caption_text_def y_line_def y_text_def
        z_line_def z_text_def axis_circle_def Let_def)
  have mem: "(module_rect width n i j
            \<in> set (emitted (generate_fiducial tag_id n tag width print_label)))
           = (tag ! i ! j = 255)"
    using in_lights not_frame not_label
    by (simp add: generate_fiducial_square [OF assms(3) n2] emitted_def)
  have block: "tag_rect width n \<in> set (emitted (generate_fiducial tag_id n tag width print_label))"
    by (simp add: generate_fiducial_square [OF assms(3) n2] emitted_def)
  have form: "module_rect width n i j =
             Rect (Dim (square_side width n + real j * square_side width n) Cm,
                   Dim (square_side width n + real i * square_side width n) Cm)
                  (Dim (square_side width n) Cm, Dim (square_side width n) Cm)
                  ''white'' ''white''"
    by (simp add: module_rect_def april_org_def square_size_def Let_def mult.commute)
  have inside: "square_side width n + real k * square_side width n + square_side width n
             \<le> square_side width n + real_of_int n * square_side width n" if "k < nat n" for k
  proof -
    have "real k + 1 \<le> real_of_int n" using that by linarith
    then have "(real k + 1) * square_side width n \<le> real_of_int n * square_side width n"
      using pos by (simp add: mult_right_mono)
    then show ?thesis by (simp add: algebra_simps)
  qed
  from mem block form inside [OF assms(5)] inside [OF assms(4)] show ?thesis by (intro conjI)
qed

theorem light_iff_255_witness:
  "(1::int) \<le> 4 \<and> (0::real) < 5 \<and> square_matrix 4 scenario_tag \<and> (0::nat) < nat 4
   \<and> (1::nat) < nat 4
   \<and> module_rect 5 4 0 0 \<in> set (emitted (generate_fiducial 7 4 scenario_tag 5 True))
   \<and> module_rect 5 4 0 1 \<notin> set (emitted (generate_fiducial 7 4 scenario_tag 5 True))"
proof -
  have a: "(1::int) \<le> 4" "(0::real) < 5" "(0::nat) < nat 4" "(1::nat) < nat 4"
    by simp_all
  have v: "scenario_tag ! 0 ! 0 = 255" "scenario_tag ! 0 ! 1 \<noteq> 255"
    by (simp_all add: scenario_tag_def)
  from light_iff_255 [OF a(1) a(2) scenario_square a(3) a(3), of 7 True] v(1)
  have m0: "module_rect 5 4 0 0 \<in> set (emitted (generate_fiducial 7 4 scenario_tag 5 True))"
    by blast
  from light_iff_255 [OF a(1) a(2) scenario_square a(3) a(4), of 7 True] v(2)
  have m1: "module_rect 5 4 0 1 \<notin> set (emitted (generate_fiducial 7 4 scenario_tag 5 True))"
    by blast
  from a scenario_square m0 m1 show ?thesis by (intro conjI)
qed

end
